theory Spec2Isabelle
  imports
    Complex_Main
    "HOL-Library.Char_ord"
    "HOL-Library.List_Lexorder"
    "HOL-Library.Product_Lexorder"
    "HOL-Library.Option_ord"
begin

section \<open>Strings as the cleaning scripts use them\<close>

text \<open>
  The scripts work on Python \<open>str\<close> values read from CSV files. A string is modelled as a
  list of characters, each standing for one ASCII code point; \<open>None\<close> stands for a
  missing cell (\<open>pd.isna\<close>). The character classes below are the ASCII parts of
  \<open>str.isspace\<close>, \<open>str.upper\<close> and of the regular expression class \<open>[A-Z0-9]\<close>.
\<close>

definition is_space :: "char \<Rightarrow> bool" where
  "is_space c = (let n = (of_char c :: nat) in (9 \<le> n \<and> n \<le> 13) \<or> (28 \<le> n \<and> n \<le> 32))"

definition is_AZ09 :: "char \<Rightarrow> bool" where
  "is_AZ09 c = (let n = (of_char c :: nat) in (65 \<le> n \<and> n \<le> 90) \<or> (48 \<le> n \<and> n \<le> 57))"

definition upper_char :: "char \<Rightarrow> char" where
  "upper_char c = (let n = (of_char c :: nat) in if 97 \<le> n \<and> n \<le> 122 then char_of (n - 32) else c)"

definition strip :: "string \<Rightarrow> string" where
  "strip s = rev (dropWhile is_space (rev (dropWhile is_space s)))"

definition upper :: "string \<Rightarrow> string" where
  "upper s = map upper_char s"

text \<open>\<open>re.sub(r'[-\s]', '', s)\<close> and \<open>re.sub(r'[^A-Z0-9]', '', s)\<close>.\<close>

definition sub_hyphen_space :: "string \<Rightarrow> string" where
  "sub_hyphen_space s = filter (\<lambda>c. c \<noteq> CHR ''-'' \<and> \<not> is_space c) s"

definition sub_non_AZ09 :: "string \<Rightarrow> string" where
  "sub_non_AZ09 s = filter is_AZ09 s"

text \<open>\<open>s.split(',')[0]\<close>: the text before the first comma (all of \<open>s\<close> when it has none).\<close>

definition split_comma_first :: "string \<Rightarrow> string" where
  "split_comma_first s = takeWhile (\<lambda>c. c \<noteq> CHR '','') s"

section \<open>Identifier normalisation (scripts 02 and 03)\<close>

text \<open>
  \<open>clean_isbn\<close> of \<open>02_clean_goodreads.py\<close>; the argument is the cell already turned
  into text by \<open>str\<close>, or \<open>None\<close> for a missing cell.
\<close>

definition clean_isbn :: "string option \<Rightarrow> string option" where
  "clean_isbn isbn =
     (case isbn of
        None \<Rightarrow> None
      | Some v \<Rightarrow>
          (let isbn_str = upper (strip v);
               isbn_clean = sub_non_AZ09 (sub_hyphen_space isbn_str)
           in if length isbn_clean = 10 \<or> length isbn_clean = 13 then Some isbn_clean else None))"

text \<open>\<open>clean_isbn\<close> of \<open>03_clean_bookcrossing.py\<close>, a second copy of the same function.\<close>

definition clean_isbn_bx :: "string option \<Rightarrow> string option" where
  "clean_isbn_bx isbn =
     (case isbn of
        None \<Rightarrow> None
      | Some v \<Rightarrow>
          (let isbn_str = upper (strip v);
               isbn_clean = sub_non_AZ09 (sub_hyphen_space isbn_str)
           in if length isbn_clean = 10 \<or> length isbn_clean = 13 then Some isbn_clean else None))"

section \<open>The Goodreads frame (script 02)\<close>

text \<open>
  A cell of a column that \<open>pd.to_numeric\<close> is applied to: pandas has read it as a number,
  as text, or as missing.
\<close>

datatype cell = Num real | Text string | NA

text \<open>
  \<open>pd.to_numeric(col, errors='coerce')\<close> on one cell. The parser of numeric text belongs
  to pandas and is a parameter; \<open>None\<close> is NaN.
\<close>

definition to_numeric :: "(string \<Rightarrow> real option) \<Rightarrow> cell \<Rightarrow> real option" where
  "to_numeric parse c = (case c of Num r \<Rightarrow> Some r | Text s \<Rightarrow> parse s | NA \<Rightarrow> None)"

text \<open>
  One row of the frame \<open>goodreads\<close>: the raw columns the cleaning reads, the derived
  columns \<open>isbn_clean\<close>, \<open>isbn13_clean\<close>, \<open>ISBN\<close> and \<open>book_key\<close>, and the rating after
  coercion.
\<close>

record goodreads_row =
  isbn :: "string option"
  isbn13 :: "string option"
  title :: "string option"
  authors :: "string option"
  average_rating :: cell
  isbn_clean :: "string option"
  isbn13_clean :: "string option"
  ISBN :: "string option"
  book_key :: "string option"

text \<open>\<open>a.fillna(b)\<close> on one cell.\<close>

definition fillna :: "'a option \<Rightarrow> 'a option \<Rightarrow> 'a option" where
  "fillna a b = (case a of Some x \<Rightarrow> Some x | None \<Rightarrow> b)"

definition add_isbn_columns :: "goodreads_row \<Rightarrow> goodreads_row" where
  "add_isbn_columns r =
     (let r1 = r\<lparr>isbn_clean := clean_isbn (isbn r)\<rparr>;
          r2 = r1\<lparr>isbn13_clean := clean_isbn (isbn13 r1)\<rparr>
      in r2\<lparr>ISBN := fillna (isbn13_clean r2) (isbn_clean r2)\<rparr>)"

text \<open>
  \<open>create_composite_key\<close>: the guard \<open>if title and author\<close> tests the trimmed, uppercased
  title and author list for emptiness, before the non-alphanumeric characters are
  removed.
\<close>

definition create_composite_key :: "goodreads_row \<Rightarrow> string option" where
  "create_composite_key row =
     (case ISBN row of
        Some k \<Rightarrow> Some k
      | None \<Rightarrow>
          (let title' = (case title row of Some t \<Rightarrow> upper (strip t) | None \<Rightarrow> []);
               author = (case authors row of Some a \<Rightarrow> upper (strip a) | None \<Rightarrow> [])
           in if title' \<noteq> [] \<and> author \<noteq> [] then
                (let title_clean = sub_non_AZ09 title';
                     author_clean = sub_non_AZ09 (split_comma_first author)
                 in Some (''COMP_'' @ take 30 title_clean @ ''_'' @ take 20 author_clean))
              else None))"

definition add_book_key :: "goodreads_row \<Rightarrow> goodreads_row" where
  "add_book_key r = r\<lparr>book_key := create_composite_key r\<rparr>"

text \<open>
  \<open>goodreads_clean = goodreads[goodreads['book_key'].notna()]\<close>, on the frame with the
  identifier columns and the key column added.
\<close>

definition goodreads_keyed :: "goodreads_row list \<Rightarrow> goodreads_row list" where
  "goodreads_keyed rows = map (add_book_key \<circ> add_isbn_columns) rows"

definition drop_unkeyed :: "goodreads_row list \<Rightarrow> goodreads_row list" where
  "drop_unkeyed rows = filter (\<lambda>r. book_key r \<noteq> None) rows"

text \<open>
  The rating step: \<open>pd.to_numeric(..., errors='coerce')\<close> overwrites the column, then the
  frame keeps the rows with \<open>(average_rating >= 0) & (average_rating <= 5)\<close>. A comparison
  with NaN is false. Both happen only under the guard
  \<open>if 'average_rating' in goodreads_clean.columns\<close>: the flag \<open>average_rating_in_columns\<close>
  says whether the frame has the column, and without it the frame stays as it is (the
  field \<open>average_rating\<close> of a row then stands for no column and is not read).
\<close>

definition coerce_average_rating :: "(string \<Rightarrow> real option) \<Rightarrow> goodreads_row \<Rightarrow> goodreads_row" where
  "coerce_average_rating parse r =
     r\<lparr>average_rating := (case to_numeric parse (average_rating r) of Some v \<Rightarrow> Num v | None \<Rightarrow> NA)\<rparr>"

definition rating_in_0_5 :: "cell \<Rightarrow> bool" where
  "rating_in_0_5 c = (case c of Num v \<Rightarrow> 0 \<le> v \<and> v \<le> 5 | Text s \<Rightarrow> False | NA \<Rightarrow> False)"

definition clean_average_rating ::
  "bool \<Rightarrow> (string \<Rightarrow> real option) \<Rightarrow> goodreads_row list \<Rightarrow> goodreads_row list" where
  "clean_average_rating average_rating_in_columns parse rows =
     (if average_rating_in_columns
      then filter (\<lambda>r. rating_in_0_5 (average_rating r)) (map (coerce_average_rating parse) rows)
      else rows)"

text \<open>Script 02 from the raw frame up to the rating step.\<close>

definition goodreads_clean ::
  "bool \<Rightarrow> (string \<Rightarrow> real option) \<Rightarrow> goodreads_row list \<Rightarrow> goodreads_row list" where
  "goodreads_clean average_rating_in_columns parse rows =
     clean_average_rating average_rating_in_columns parse (drop_unkeyed (goodreads_keyed rows))"

text \<open>
  The column \<open>goodreads_rating\<close> of the exported frame: \<open>average_rating\<close> renamed when
  the frame has that column (a float column after the coercion, so a cell is a number
  or NaN), and otherwise the column added with \<open>goodreads_final[col] = None\<close>.
\<close>

definition goodreads_final_rating :: "bool \<Rightarrow> goodreads_row \<Rightarrow> real option" where
  "goodreads_final_rating average_rating_in_columns r =
     (if average_rating_in_columns
      then (case average_rating r of Num v \<Rightarrow> Some v | Text s \<Rightarrow> None | NA \<Rightarrow> None)
      else None)"

text \<open>
  A parser of plain decimal literals (digits with at most one decimal point), used to
  run the rating step on examples. It accepts less than the parser of pandas (no sign,
  no exponent); the text it is applied to below is numeric, or not numeric, for both.
\<close>

definition digit_of :: "char \<Rightarrow> nat option" where
  "digit_of c = (let n = (of_char c :: nat) in if 48 \<le> n \<and> n \<le> 57 then Some (n - 48) else None)"

fun digits_value :: "string \<Rightarrow> nat \<Rightarrow> nat option" where
  "digits_value [] acc = Some acc"
| "digits_value (c # cs) acc =
     (case digit_of c of None \<Rightarrow> None | Some d \<Rightarrow> digits_value cs (10 * acc + d))"

definition parse_decimal :: "string \<Rightarrow> real option" where
  "parse_decimal s =
     (let ip = takeWhile (\<lambda>c. c \<noteq> CHR ''.'') s;
          fp = drop 1 (dropWhile (\<lambda>c. c \<noteq> CHR ''.'') s)
      in if ip = [] \<and> fp = [] then None
         else (case digits_value ip 0 of
                 None \<Rightarrow> None
               | Some i \<Rightarrow>
                   (case digits_value fp 0 of
                      None \<Rightarrow> None
                    | Some f \<Rightarrow> Some (real i + real f / 10 ^ length fp))))"

subsection \<open>Publisher tables\<close>

text \<open>
  The dictionary \<open>uk_publishers\<close> of \<open>standardize_publisher\<close>, in its insertion order, and
  the list \<open>uk_publisher_keywords\<close> that sets \<open>is_uk_publisher\<close>.
\<close>

definition uk_publishers :: "(string \<times> string list) list" where
  "uk_publishers =
     [(''PENGUIN'', [''PENGUIN'', ''PENGUIN BOOKS'', ''PENGUIN UK'', ''PENGUIN RANDOM HOUSE'']),
      (''BLOOMSBURY'', [''BLOOMSBURY'', ''BLOOMSBURY PUBLISHING'']),
      (''HARPERCOLLINS'', [''HARPERCOLLINS'', ''HARPER COLLINS'', ''HARPER'']),
      (''MACMILLAN'', [''MACMILLAN'', ''PAN MACMILLAN'', ''MACMILLAN UK'']),
      (''ORION'', [''ORION'', ''ORION PUBLISHING'']),
      (''FABER'', [''FABER'', ''FABER & FABER'', ''FABER AND FABER'']),
      (''RANDOM HOUSE'', [''RANDOM HOUSE'', ''RANDOMHOUSE''])]"

definition uk_publisher_keywords :: "string list" where
  "uk_publisher_keywords =
     [''PENGUIN'', ''BLOOMSBURY'', ''HARPERCOLLINS'', ''MACMILLAN'',
      ''ORION'', ''FABER'', ''CANONGATE'', ''HACHETTE UK'']"

definition canonical_names :: "string list" where
  "canonical_names = map fst uk_publishers"

section \<open>The Book-Crossing ratings (script 03)\<close>

text \<open>
  A row of \<open>BX-Book-Ratings.csv\<close> with the derived column \<open>isbn_clean\<close>, and a row of the
  cleaned user frame restricted to the columns the merge selects. \<open>age_group\<close> is a label
  for every user: \<open>categorize_age\<close> returns \<open>'Unknown'\<close> for a missing age.
\<close>

record bx_rating =
  r_user_id :: int
  r_isbn :: "string option"
  r_book_rating :: int
  r_isbn_clean :: "string option"

record bx_user =
  u_user_id :: int
  u_age_group :: string
  u_country :: string
  u_is_uk :: bool

definition bc_ratings_explicit :: "bx_rating list \<Rightarrow> bx_rating list" where
  "bc_ratings_explicit rs = filter (\<lambda>r. r_book_rating r > 0) rs"

definition bc_ratings_clean :: "bx_rating list \<Rightarrow> bx_rating list" where
  "bc_ratings_clean rs =
     filter (\<lambda>r. r_isbn_clean r \<noteq> None)
       (map (\<lambda>r. r\<lparr>r_isbn_clean := clean_isbn_bx (r_isbn r)\<rparr>) (bc_ratings_explicit rs))"

text \<open>
  \<open>bc_ratings_clean.merge(users, on='User-ID', how='left')\<close>: every rating row, in order,
  paired with each user row of the same id, or with no user row when there is none.
\<close>

definition ratings_with_users :: "bx_rating list \<Rightarrow> bx_user list \<Rightarrow> (bx_rating \<times> bx_user option) list" where
  "ratings_with_users rs us =
     concat (map (\<lambda>r. let ms = filter (\<lambda>u. u_user_id u = r_user_id r) us
                       in if ms = [] then [(r, None)] else map (\<lambda>u. (r, Some u)) ms) rs)"

text \<open>The value of the column \<open>age_group\<close> in a merged row; \<open>None\<close> is NaN.\<close>

definition age_group_of :: "bx_rating \<times> bx_user option \<Rightarrow> string option" where
  "age_group_of row = map_option u_age_group (snd row)"

definition group_key :: "bx_rating \<times> bx_user option \<Rightarrow> string option \<times> string option" where
  "group_key row = (r_isbn_clean (fst row), age_group_of row)"

record demographic_row =
  d_isbn :: "string option"
  d_age_group :: "string option"
  d_rating_avg :: real
  d_rating_count :: nat

text \<open>
  \<open>groupby(['isbn_clean', 'age_group']).agg({'Book-Rating': ['mean', 'count']})\<close> with the
  defaults of pandas: rows with a missing value in a key column are left out
  (\<open>dropna=True\<close>), and the groups come in the order of their keys (\<open>sort=True\<close>).
\<close>

definition dropna_keys :: "(bx_rating \<times> bx_user option) list \<Rightarrow> (bx_rating \<times> bx_user option) list" where
  "dropna_keys rows = filter (\<lambda>row. fst (group_key row) \<noteq> None \<and> snd (group_key row) \<noteq> None) rows"

definition aggregate_group ::
  "(bx_rating \<times> bx_user option) list \<Rightarrow> string option \<times> string option \<Rightarrow> demographic_row" where
  "aggregate_group rows k =
     (let ratings = map (\<lambda>row. r_book_rating (fst row)) (filter (\<lambda>row. group_key row = k) rows)
      in \<lparr>d_isbn = fst k, d_age_group = snd k,
          d_rating_avg = real_of_int (sum_list ratings) / real (length ratings),
          d_rating_count = length ratings\<rparr>)"

definition groupby_isbn_age :: "(bx_rating \<times> bx_user option) list \<Rightarrow> demographic_row list" where
  "groupby_isbn_age rows =
     (let kept = dropna_keys rows
      in map (aggregate_group kept) (sort (remdups (map group_key kept))))"

definition demographic_insights :: "bx_rating list \<Rightarrow> bx_user list \<Rightarrow> demographic_row list" where
  "demographic_insights rs us =
     filter (\<lambda>d. d_rating_count d \<ge> 5) (groupby_isbn_age (ratings_with_users rs us))"

section \<open>The database and the join (script 04)\<close>

text \<open>
  The tables \<open>books\<close> and \<open>community_ratings\<close> as the query reads them. A nullable column
  is an option; \<open>is_uk_publisher\<close> is the boolean that script 02 computes for every row,
  stored as 0 or 1.
\<close>

record book =
  b_book_key :: "string option"
  b_isbn :: "string option"
  b_title :: "string option"
  b_authors :: "string option"
  b_goodreads_rating :: "real option"
  b_goodreads_review_count :: "int option"
  b_page_count :: "real option"
  b_publisher :: "string option"
  b_is_uk_publisher :: bool

record community_rating =
  c_isbn :: "string option"
  c_bc_rating_avg :: "real option"
  c_bc_rating_count :: "int option"
  c_bc_rating_stddev :: "real option"
  c_bc_rating_median :: "real option"
  c_bc_rating_normalized :: "real option"

record master_row =
  m_book_key :: "string option"
  m_isbn :: "string option"
  m_title :: "string option"
  m_authors :: "string option"
  m_goodreads_rating :: "real option"
  m_goodreads_review_count :: "int option"
  m_page_count :: "real option"
  m_publisher :: "string option"
  m_is_uk_publisher :: bool
  m_bc_rating :: "real option"
  m_bc_rating_count :: "int option"
  m_bc_rating_stddev :: "real option"
  m_rating_gap :: "real option"
  m_book_category :: string
  m_engagement_score :: "real option"

subsection \<open>SQL expressions over nullable values\<close>

text \<open>
  A truth value of SQL is \<open>Some True\<close>, \<open>Some False\<close> or \<open>None\<close> (NULL). Comparisons and
  arithmetic give NULL when an operand is NULL; \<open>AND\<close> and \<open>OR\<close> are three-valued.
\<close>

definition sql_cmp :: "('a \<Rightarrow> 'b \<Rightarrow> bool) \<Rightarrow> 'a option \<Rightarrow> 'b option \<Rightarrow> bool option" where
  "sql_cmp p a b =
     (case a of None \<Rightarrow> None | Some x \<Rightarrow> (case b of None \<Rightarrow> None | Some y \<Rightarrow> Some (p x y)))"

definition sql_arith :: "('a \<Rightarrow> 'b \<Rightarrow> 'c) \<Rightarrow> 'a option \<Rightarrow> 'b option \<Rightarrow> 'c option" where
  "sql_arith f a b =
     (case a of None \<Rightarrow> None | Some x \<Rightarrow> (case b of None \<Rightarrow> None | Some y \<Rightarrow> Some (f x y)))"

definition sql_and :: "bool option \<Rightarrow> bool option \<Rightarrow> bool option" where
  "sql_and a b =
     (if a = Some False \<or> b = Some False then Some False
      else if a = Some True \<and> b = Some True then Some True else None)"

definition sql_or :: "bool option \<Rightarrow> bool option \<Rightarrow> bool option" where
  "sql_or a b =
     (if a = Some True \<or> b = Some True then Some True
      else if a = Some False \<and> b = Some False then Some False else None)"

definition sql_is_not_null :: "'a option \<Rightarrow> bool option" where
  "sql_is_not_null a = Some (a \<noteq> None)"

text \<open>
  The one-argument \<open>LOG\<close> of SQLite is the logarithm to base 10; it gives NULL for NULL
  and for an argument that is not positive.
\<close>

definition sql_log :: "real option \<Rightarrow> real option" where
  "sql_log a = (case a of None \<Rightarrow> None | Some x \<Rightarrow> if x \<le> 0 then None else Some (log 10 x))"

text \<open>A column of the right-hand table in a row of the left join.\<close>

definition col :: "(community_rating \<Rightarrow> 'a option) \<Rightarrow> community_rating option \<Rightarrow> 'a option" where
  "col f co = (case co of None \<Rightarrow> None | Some c \<Rightarrow> f c)"

subsection \<open>The query\<close>

text \<open>\<open>FROM books b LEFT JOIN community_ratings c ON b.isbn = c.isbn\<close>.\<close>

definition left_join :: "book list \<Rightarrow> community_rating list \<Rightarrow> (book \<times> community_rating option) list" where
  "left_join bs cs =
     concat (map (\<lambda>b. let ms = filter (\<lambda>c. sql_cmp (=) (b_isbn b) (c_isbn c) = Some True) cs
                       in if ms = [] then [(b, None)] else map (\<lambda>c. (b, Some c)) ms) bs)"

text \<open>\<open>WHERE b.is_uk_publisher = 1 OR c.isbn IS NOT NULL\<close>: a row stays when this is true.\<close>

definition where_clause :: "book \<times> community_rating option \<Rightarrow> bool" where
  "where_clause row =
     (sql_or (Some (b_is_uk_publisher (fst row))) (sql_is_not_null (col c_isbn (snd row))) = Some True)"

definition retained :: "book list \<Rightarrow> community_rating list \<Rightarrow> (book \<times> community_rating option) list" where
  "retained bs cs = filter where_clause (left_join bs cs)"

text \<open>The \<open>CASE\<close> expression: the first \<open>WHEN\<close> whose condition is true decides.\<close>

definition book_category :: "real option \<Rightarrow> int option \<Rightarrow> string" where
  "book_category bc_rating_normalized goodreads_review_count =
     (if sql_and (sql_cmp (\<ge>) bc_rating_normalized (Some 4))
                 (sql_cmp (<) goodreads_review_count (Some 500)) = Some True
      then ''Hidden Gem''
      else if sql_and (sql_cmp (\<ge>) bc_rating_normalized (Some 4))
                      (sql_cmp (\<ge>) goodreads_review_count (Some 500)) = Some True
      then ''Popular Favorite''
      else if sql_cmp (<) bc_rating_normalized (Some 3) = Some True
      then ''Underperformer''
      else ''Average'')"

text \<open>\<open>b.goodreads_rating * LOG(b.goodreads_review_count + 1)\<close>.\<close>

definition engagement_score :: "real option \<Rightarrow> int option \<Rightarrow> real option" where
  "engagement_score goodreads_rating goodreads_review_count =
     sql_arith (*) goodreads_rating
       (sql_log (map_option real_of_int (sql_arith (+) goodreads_review_count (Some 1))))"

text \<open>The \<open>SELECT\<close> list on one row of the join.\<close>

definition select_row :: "book \<times> community_rating option \<Rightarrow> master_row" where
  "select_row row =
     (let b = fst row; co = snd row
      in \<lparr>m_book_key = b_book_key b,
          m_isbn = b_isbn b,
          m_title = b_title b,
          m_authors = b_authors b,
          m_goodreads_rating = b_goodreads_rating b,
          m_goodreads_review_count = b_goodreads_review_count b,
          m_page_count = b_page_count b,
          m_publisher = b_publisher b,
          m_is_uk_publisher = b_is_uk_publisher b,
          m_bc_rating = col c_bc_rating_normalized co,
          m_bc_rating_count = col c_bc_rating_count co,
          m_bc_rating_stddev = col c_bc_rating_stddev co,
          m_rating_gap = sql_arith (-) (col c_bc_rating_normalized co) (b_goodreads_rating b),
          m_book_category =
            book_category (col c_bc_rating_normalized co) (b_goodreads_review_count b),
          m_engagement_score =
            engagement_score (b_goodreads_rating b) (b_goodreads_review_count b)\<rparr>)"

text \<open>
  \<open>ORDER BY engagement_score DESC\<close>: NULL is the smallest value, so it comes last. The
  order among rows of equal score is not fixed by SQL; here it is the reverse of the
  row order.
\<close>

definition order_by_engagement_desc :: "master_row list \<Rightarrow> master_row list" where
  "order_by_engagement_desc rows = rev (sort_key m_engagement_score rows)"

definition sql_query :: "book list \<Rightarrow> community_rating list \<Rightarrow> master_row list" where
  "sql_query bs cs = order_by_engagement_desc (map select_row (retained bs cs))"

subsection \<open>The script as a stage\<close>

text \<open>
  The files and the table the stage reads and writes: \<open>None\<close> is a file that does not
  exist. \<open>db_community_ratings\<close> is the content of the table \<open>community_ratings\<close> in the
  database file, empty when the database is new.
\<close>

datatype exit_status = Exit0 | Exit1

record files =
  goodreads_cleaned_csv :: "book list option"
  bc_ratings_aggregated_csv :: "community_rating list option"
  db_community_ratings :: "community_rating list"
  master_dataset_csv :: "master_row list option"

text \<open>
  Script 04: without \<open>goodreads_cleaned.csv\<close> it exits with status 1. Without
  \<open>bc_ratings_aggregated.csv\<close> it prints a warning and goes on with an empty frame; the
  table \<open>community_ratings\<close> is replaced only by a frame with rows. The query is taken to
  run without an exception.
\<close>

definition create_database :: "files \<Rightarrow> exit_status \<times> files" where
  "create_database fs =
     (case goodreads_cleaned_csv fs of
        None \<Rightarrow> (Exit1, fs)
      | Some goodreads \<Rightarrow>
          (let bc_ratings = (case bc_ratings_aggregated_csv fs of None \<Rightarrow> [] | Some rows \<Rightarrow> rows);
               community = (if length bc_ratings > 0 then bc_ratings else db_community_ratings fs);
               master_dataset = sql_query goodreads community
           in (Exit0, fs\<lparr>db_community_ratings := community,
                          master_dataset_csv := Some master_dataset\<rparr>)))"

section \<open>The runner (run_all.py)\<close>

text \<open>
  \<open>run_script\<close> gives \<open>False\<close> when the script file is missing (\<open>None\<close>) or the script
  exits with a status other than 0; \<open>main\<close> counts the successes and stops at the first
  failure.
\<close>

type_synonym stage = "files \<Rightarrow> exit_status \<times> files"

definition run_script :: "stage option \<Rightarrow> files \<Rightarrow> bool \<times> files" where
  "run_script script fs =
     (case script of
        None \<Rightarrow> (False, fs)
      | Some run \<Rightarrow> (case run fs of (Exit0, fs') \<Rightarrow> (True, fs') | (Exit1, fs') \<Rightarrow> (False, fs')))"

fun run_scripts :: "stage option list \<Rightarrow> files \<Rightarrow> nat \<times> files" where
  "run_scripts [] fs = (0, fs)"
| "run_scripts (script # rest) fs =
     (case run_script script fs of
        (True, fs') \<Rightarrow> (case run_scripts rest fs' of (success_count, fs'') \<Rightarrow> (Suc success_count, fs''))
      | (False, fs') \<Rightarrow> (0, fs'))"

text \<open>
  The guard at the start of scripts 05 and 06: exit with status 1 when
  \<open>master_dataset.csv\<close> is missing. What the scripts do after the guard is not modelled.
\<close>

definition reads_master_dataset :: stage where
  "reads_master_dataset fs = (case master_dataset_csv fs of None \<Rightarrow> (Exit1, fs) | Some rows \<Rightarrow> (Exit0, fs))"

section \<open>Identifiers: shape and idempotence\<close>

lemma is_AZ09_not_space: "is_AZ09 c \<Longrightarrow> \<not> is_space c"
  by (auto simp: is_AZ09_def is_space_def Let_def)

lemma is_AZ09_not_hyphen: "is_AZ09 c \<Longrightarrow> c \<noteq> CHR ''-''"
  by (auto simp: is_AZ09_def Let_def)

lemma is_AZ09_not_underscore: "is_AZ09 c \<Longrightarrow> c \<noteq> CHR ''_''"
  by (auto simp: is_AZ09_def Let_def)

lemma is_AZ09_upper: "is_AZ09 c \<Longrightarrow> upper_char c = c"
  by (auto simp: is_AZ09_def upper_char_def Let_def)

lemma strip_AZ09:
  assumes "list_all is_AZ09 s"
  shows "strip s = s"
proof (cases s)
  case Nil
  then show ?thesis by (simp add: strip_def)
next
  case (Cons x xs)
  with assms have "\<not> is_space x" by (simp add: is_AZ09_not_space)
  with Cons have front: "dropWhile is_space s = s" by simp
  from Cons obtain ys y where snoc: "s = ys @ [y]"
    by (metis list.distinct(1) rev_exhaust)
  with assms have "\<not> is_space y" by (simp add: is_AZ09_not_space)
  with snoc have "dropWhile is_space (rev s) = rev s" by simp
  with front show ?thesis by (simp add: strip_def)
qed

lemma upper_AZ09: "list_all is_AZ09 s \<Longrightarrow> upper s = s"
  by (induction s) (auto simp: upper_def is_AZ09_upper)

lemma sub_hyphen_space_AZ09: "list_all is_AZ09 s \<Longrightarrow> sub_hyphen_space s = s"
  by (induction s) (auto simp: sub_hyphen_space_def is_AZ09_not_space is_AZ09_not_hyphen)

lemma sub_non_AZ09_AZ09: "list_all is_AZ09 s \<Longrightarrow> sub_non_AZ09 s = s"
  by (induction s) (auto simp: sub_non_AZ09_def)

lemma list_all_sub_non_AZ09: "list_all is_AZ09 (sub_non_AZ09 s)"
  by (simp add: sub_non_AZ09_def list_all_iff)

lemma clean_isbn_Some_shape:
  "clean_isbn x = Some r \<Longrightarrow> list_all is_AZ09 r \<and> (length r = 10 \<or> length r = 13)"
  by (auto simp: clean_isbn_def Let_def list_all_sub_non_AZ09 split: option.splits if_splits)

lemma clean_isbn_fixed:
  "list_all is_AZ09 r \<Longrightarrow> length r = 10 \<or> length r = 13 \<Longrightarrow> clean_isbn (Some r) = Some r"
  by (auto simp: clean_isbn_def Let_def strip_AZ09 upper_AZ09 sub_hyphen_space_AZ09
      sub_non_AZ09_AZ09)

lemma clean_isbn_bx_eq: "clean_isbn_bx x = clean_isbn x"
  by (simp add: clean_isbn_bx_def clean_isbn_def)

text \<open>
  Claim C9. Identifier normalisation is idempotent: whenever \<open>clean_isbn\<close> (of script 02,
  and its copy in script 03) maps an input to a valid identifier, that identifier has
  length 10 or 13, and normalising it again returns it unchanged.
\<close>

theorem clean_isbn_idempotent:
  "(clean_isbn x = Some r \<longrightarrow>
      (length r = 10 \<or> length r = 13) \<and> clean_isbn (Some r) = Some r) \<and>
   (clean_isbn_bx x = Some r \<longrightarrow>
      (length r = 10 \<or> length r = 13) \<and> clean_isbn_bx (Some r) = Some r)"
  using clean_isbn_Some_shape [of x r] clean_isbn_fixed [of r]
  by (auto simp: clean_isbn_bx_eq)

theorem clean_isbn_idempotent_witness:
  "clean_isbn (Some '' 0-439-70818-x '') = Some ''043970818X'' \<and>
   clean_isbn (Some ''043970818X'') = Some ''043970818X'' \<and>
   clean_isbn_bx (Some ''978-0-439-70818-0'') = Some ''9780439708180'' \<and>
   clean_isbn_bx (Some ''9780439708180'') = Some ''9780439708180''"
proof -
  have a: "clean_isbn (Some '' 0-439-70818-x '') = Some ''043970818X''"
    by code_simp
  have b: "clean_isbn_bx (Some ''978-0-439-70818-0'') = Some ''9780439708180''"
    by code_simp
  from a b
    clean_isbn_idempotent [of "Some '' 0-439-70818-x ''" "''043970818X''"]
    clean_isbn_idempotent [of "Some ''978-0-439-70818-0''" "''9780439708180''"]
  show ?thesis by simp
qed

section \<open>Composite keys\<close>

lemma composite_key_Some_shape:
  assumes "ISBN row = None" and "create_composite_key row = Some k"
  shows "\<exists>t a. k = ''COMP_'' @ t @ ''_'' @ a"
  using assms by (auto simp: create_composite_key_def Let_def split: if_splits)

lemma AZ09_no_underscore: "list_all is_AZ09 n \<Longrightarrow> CHR ''_'' \<notin> set n"
  using is_AZ09_not_underscore by (auto simp: list_all_iff)

text \<open>
  Claim C10. The two key namespaces are disjoint: a composite fallback key (the key of a
  row without a valid identifier) starts with \<open>COMP_\<close> and contains an underscore, a
  normalised identifier (from either copy of \<open>clean_isbn\<close>) consists of uppercase letters
  and digits only, so the two are never equal.
\<close>

theorem key_namespaces_disjoint:
  assumes "ISBN row = None" and "create_composite_key row = Some k"
    and "clean_isbn x = Some n" and "clean_isbn_bx y = Some n'"
  shows "take 5 k = ''COMP_'' \<and> CHR ''_'' \<in> set k \<and>
         list_all is_AZ09 n \<and> list_all is_AZ09 n' \<and> k \<noteq> n \<and> k \<noteq> n'"
proof -
  from assms(1,2) obtain t a where k: "k = ''COMP_'' @ t @ ''_'' @ a"
    using composite_key_Some_shape by blast
  have pre: "take 5 k = ''COMP_''" using k by simp
  have und: "CHR ''_'' \<in> set k" using k by simp
  have shape: "list_all is_AZ09 n" using assms(3) clean_isbn_Some_shape by blast
  have shape': "list_all is_AZ09 n'"
    using assms(4) clean_isbn_Some_shape [of y n'] by (simp add: clean_isbn_bx_eq)
  have "k \<noteq> n" using und AZ09_no_underscore [OF shape] by auto
  moreover have "k \<noteq> n'" using und AZ09_no_underscore [OF shape'] by auto
  ultimately show ?thesis using pre und shape shape' by simp
qed

theorem key_namespaces_disjoint_witness:
  "create_composite_key
     \<lparr>isbn = None, isbn13 = None, title = Some ''Harry Potter'',
      authors = Some ''J.K. Rowling, M. GrandPre'', average_rating = Num (447 / 100),
      isbn_clean = None, isbn13_clean = None, ISBN = None, book_key = None\<rparr>
     = Some ''COMP_HARRYPOTTER_JKROWLING'' \<and>
   clean_isbn (Some ''0439708184'') = Some ''0439708184'' \<and>
   clean_isbn_bx (Some ''0-439-70818-x'') = Some ''043970818X'' \<and>
   ''COMP_HARRYPOTTER_JKROWLING'' \<noteq> ''0439708184'' \<and>
   ''COMP_HARRYPOTTER_JKROWLING'' \<noteq> ''043970818X''"
proof -
  let ?row = "\<lparr>isbn = None, isbn13 = None, title = Some ''Harry Potter'',
      authors = Some ''J.K. Rowling, M. GrandPre'', average_rating = Num (447 / 100),
      isbn_clean = None, isbn13_clean = None, ISBN = None, book_key = None\<rparr>"
  have h1: "ISBN ?row = None" by simp
  have h2: "create_composite_key ?row = Some ''COMP_HARRYPOTTER_JKROWLING''" by code_simp
  have h3: "clean_isbn (Some ''0439708184'') = Some ''0439708184''" by code_simp
  have h4: "clean_isbn_bx (Some ''0-439-70818-x'') = Some ''043970818X''" by code_simp
  from key_namespaces_disjoint [OF h1 h2 h3 h4] h2 h3 h4 show ?thesis by simp
qed

text \<open>
  Claim C5, as stated, fails: a title that is empty only after the non-alphanumeric
  characters are stripped still gets a key, and the row is kept.
\<close>

theorem composite_key_stripped_empty_counterexample:
  "sub_non_AZ09 (upper (strip ''?!'')) = [] \<and>
   create_composite_key
     \<lparr>isbn = None, isbn13 = None, title = Some ''?!'', authors = Some ''Smith, J.'',
      average_rating = Num 4, isbn_clean = None, isbn13_clean = None, ISBN = None,
      book_key = None\<rparr> = Some ''COMP__SMITH'' \<and>
   map book_key (drop_unkeyed (goodreads_keyed
     [\<lparr>isbn = None, isbn13 = None, title = Some ''?!'', authors = Some ''Smith, J.'',
       average_rating = Num 4, isbn_clean = None, isbn13_clean = None, ISBN = None,
       book_key = None\<rparr>])) = [Some ''COMP__SMITH'']"
  by code_simp

text \<open>
  Claim C5, amended. A row without a valid identifier receives no key exactly when its
  title or its whole author list is missing or empty after trimming surrounding
  whitespace, and a row is dropped from the frame exactly when it received no key.
\<close>

theorem composite_key_absent_iff:
  assumes "ISBN row = None"
  shows "(create_composite_key row = None \<longleftrightarrow>
            (case title row of Some t \<Rightarrow> strip t = [] | None \<Rightarrow> True) \<or>
            (case authors row of Some a \<Rightarrow> strip a = [] | None \<Rightarrow> True)) \<and>
         (add_book_key row \<in> set (drop_unkeyed (map add_book_key (row # rest))) \<longleftrightarrow>
            create_composite_key row \<noteq> None)"
proof -
  have "create_composite_key row = None \<longleftrightarrow>
          (case title row of Some t \<Rightarrow> strip t = [] | None \<Rightarrow> True) \<or>
          (case authors row of Some a \<Rightarrow> strip a = [] | None \<Rightarrow> True)"
    using assms
    by (auto simp: create_composite_key_def Let_def upper_def split: option.splits)
  moreover have "add_book_key row \<in> set (drop_unkeyed (map add_book_key (row # rest))) \<longleftrightarrow>
          create_composite_key row \<noteq> None"
    by (auto simp: drop_unkeyed_def add_book_key_def)
  ultimately show ?thesis by simp
qed

theorem composite_key_absent_iff_witness:
  "ISBN \<lparr>isbn = None, isbn13 = None, title = Some ''   '', authors = Some ''Smith, J.'',
         average_rating = Num 4, isbn_clean = None, isbn13_clean = None, ISBN = None,
         book_key = None\<rparr> = None \<and>
   create_composite_key
     \<lparr>isbn = None, isbn13 = None, title = Some ''   '', authors = Some ''Smith, J.'',
      average_rating = Num 4, isbn_clean = None, isbn13_clean = None, ISBN = None,
      book_key = None\<rparr> = None \<and>
   drop_unkeyed (map add_book_key
     [\<lparr>isbn = None, isbn13 = None, title = Some ''   '', authors = Some ''Smith, J.'',
       average_rating = Num 4, isbn_clean = None, isbn13_clean = None, ISBN = None,
       book_key = None\<rparr>]) = []"
proof -
  let ?row = "\<lparr>isbn = None, isbn13 = None, title = Some ''   '', authors = Some ''Smith, J.'',
         average_rating = Num 4, isbn_clean = None, isbn13_clean = None, ISBN = None,
         book_key = None\<rparr>"
  have h: "ISBN ?row = None" by simp
  have blank: "strip ''   '' = []" by code_simp
  have none: "create_composite_key ?row = None"
    using composite_key_absent_iff [OF h, of "[]"] blank by simp
  then have "drop_unkeyed (map add_book_key [?row]) = []"
    by (simp add: drop_unkeyed_def add_book_key_def)
  with h none show ?thesis by simp
qed

section \<open>Publisher tables\<close>

text \<open>
  Claim C8, as stated, fails: the canonical name \<open>RANDOM HOUSE\<close> of the synonym table is
  not in the keyword list, so the keyword list is not a superset of the canonical names.
\<close>

theorem keywords_superset_counterexample:
  "''RANDOM HOUSE'' \<in> set canonical_names \<and> ''RANDOM HOUSE'' \<notin> set uk_publisher_keywords"
  by (simp add: canonical_names_def uk_publishers_def uk_publisher_keywords_def)

text \<open>
  Claim C8, amended. Every canonical name of the synonym table except \<open>RANDOM HOUSE\<close>
  occurs in the keyword list, and the keyword list has exactly two keywords that are not
  canonical names, \<open>CANONGATE\<close> and \<open>HACHETTE UK\<close>: the two lists overlap, neither
  contains the other.
\<close>

theorem keywords_versus_canonical_names:
  "filter (\<lambda>k. k \<notin> set uk_publisher_keywords) canonical_names = [''RANDOM HOUSE''] \<and>
   filter (\<lambda>k. k \<notin> set canonical_names) uk_publisher_keywords = [''CANONGATE'', ''HACHETTE UK'']"
  by (simp add: canonical_names_def uk_publishers_def uk_publisher_keywords_def)

section \<open>The join: retention, category and engagement score\<close>

lemma ln10_ne_1: "ln (10::real) \<noteq> 1"
proof
  assume "ln (10::real) = 1"
  then have "exp (ln (10::real)) = exp 1" by simp
  then have "(10::real) = exp 1" by simp
  moreover have "exp (1::real) \<le> 3" by (rule exp_le)
  ultimately show False by simp
qed

lemma engagement_score_cases:
  "engagement_score rating cnt =
     (case rating of
        None \<Rightarrow> None
      | Some r \<Rightarrow>
          (case cnt of
             None \<Rightarrow> None
           | Some n \<Rightarrow> if n + 1 \<le> 0 then None else Some (r * log 10 (real_of_int (n + 1)))))"
  by (simp add: engagement_score_def sql_arith_def sql_log_def split: option.splits)

lemma set_sql_query: "set (sql_query bs cs) = select_row ` set (retained bs cs)"
  by (simp add: sql_query_def order_by_engagement_desc_def)

lemma select_row_fields:
  "m_goodreads_rating (select_row p) = b_goodreads_rating (fst p)"
  "m_goodreads_review_count (select_row p) = b_goodreads_review_count (fst p)"
  "m_bc_rating (select_row p) = col c_bc_rating_normalized (snd p)"
  "m_engagement_score (select_row p) =
     engagement_score (b_goodreads_rating (fst p)) (b_goodreads_review_count (fst p))"
  "m_book_category (select_row p) =
     book_category (col c_bc_rating_normalized (snd p)) (b_goodreads_review_count (fst p))"
  by (simp_all add: select_row_def Let_def)

lemma left_join_mem:
  "(b, co) \<in> set (left_join bs cs) \<longleftrightarrow>
     b \<in> set bs \<and>
     (case co of
        None \<Rightarrow> \<not> (\<exists>c \<in> set cs. sql_cmp (=) (b_isbn b) (c_isbn c) = Some True)
      | Some c \<Rightarrow> c \<in> set cs \<and> sql_cmp (=) (b_isbn b) (c_isbn c) = Some True)"
  by (auto simp: left_join_def Let_def filter_empty_conv split: option.splits if_splits)

lemma where_clause_iff:
  "where_clause (b, co) \<longleftrightarrow> b_is_uk_publisher b \<or> (\<exists>c. co = Some c \<and> c_isbn c \<noteq> None)"
  by (auto simp: where_clause_def sql_or_def sql_is_not_null_def col_def split: option.splits)

lemma book_category_cases:
  "book_category bc cnt =
     (case bc of
        None \<Rightarrow> ''Average''
      | Some m \<Rightarrow>
          (case cnt of
             None \<Rightarrow> if m < 3 then ''Underperformer'' else ''Average''
           | Some n \<Rightarrow>
               if m \<ge> 4 \<and> n < 500 then ''Hidden Gem''
               else if m \<ge> 4 \<and> n \<ge> 500 then ''Popular Favorite''
               else if m < 3 then ''Underperformer''
               else ''Average''))"
  by (simp add: book_category_def sql_and_def sql_cmp_def split: option.splits)

text \<open>
  Claim C1, as stated, fails: SQLite's \<open>LOG\<close> is the logarithm to base 10, so a flagged
  book with rating 1 and 9 reviews gets the score 1, not \<open>ln 10\<close>; and a rating that is
  not null gives a null score when the review count plus one is not positive.
\<close>

theorem engagement_score_counterexample:
  "map m_engagement_score
     (sql_query
        [\<lparr>b_book_key = Some ''0439708184'', b_isbn = Some ''0439708184'',
          b_title = Some ''Harry Potter'', b_authors = Some ''J.K. Rowling'',
          b_goodreads_rating = Some 1, b_goodreads_review_count = Some 9,
          b_page_count = None, b_publisher = Some ''BLOOMSBURY'',
          b_is_uk_publisher = True\<rparr>] []) = [Some 1] \<and>
   (1::real) * ln (real_of_int (9 + 1)) \<noteq> 1 \<and>
   engagement_score (Some 4) (Some (- 1)) = None"
proof -
  have "(1::real) * ln (real_of_int (9 + 1)) \<noteq> 1" using ln10_ne_1 by simp
  moreover have "engagement_score (Some 4) (Some (- 1)) = None"
    by (simp add: engagement_score_cases)
  ultimately show ?thesis
    by (simp add: sql_query_def order_by_engagement_desc_def retained_def left_join_def
      where_clause_def sql_or_def sql_is_not_null_def col_def select_row_fields
      engagement_score_cases)
qed

text \<open>
  Claim C1, amended. For every joined row, \<open>engagement_score\<close> is the catalog rating
  times the base-10 logarithm of (review count + 1) when the rating and the count are
  not null and the count + 1 is positive, and null otherwise; so on rows whose review
  count is not null and not negative it is null if and only if the rating is null.
\<close>

theorem engagement_score_log10:
  assumes "row \<in> set (sql_query bs cs)"
  shows "m_engagement_score row =
     (case m_goodreads_rating row of
        None \<Rightarrow> None
      | Some r \<Rightarrow>
          (case m_goodreads_review_count row of
             None \<Rightarrow> None
           | Some n \<Rightarrow> if n + 1 \<le> 0 then None else Some (r * log 10 (real_of_int (n + 1))))) \<and>
     (case m_goodreads_review_count row of
        None \<Rightarrow> True
      | Some n \<Rightarrow> if 0 \<le> n then (m_engagement_score row = None) = (m_goodreads_rating row = None)
                 else True)"
proof -
  from assms obtain p where "row = select_row p" by (auto simp: set_sql_query)
  then show ?thesis
    by (simp add: select_row_fields engagement_score_cases split: option.splits)
qed

theorem engagement_score_log10_witness:
  "select_row
     (\<lparr>b_book_key = Some ''0439708184'', b_isbn = Some ''0439708184'',
       b_title = Some ''Harry Potter'', b_authors = Some ''J.K. Rowling'',
       b_goodreads_rating = Some (447 / 100), b_goodreads_review_count = Some 99,
       b_page_count = None, b_publisher = Some ''BLOOMSBURY'',
       b_is_uk_publisher = True\<rparr>, None)
     \<in> set (sql_query
        [\<lparr>b_book_key = Some ''0439708184'', b_isbn = Some ''0439708184'',
          b_title = Some ''Harry Potter'', b_authors = Some ''J.K. Rowling'',
          b_goodreads_rating = Some (447 / 100), b_goodreads_review_count = Some 99,
          b_page_count = None, b_publisher = Some ''BLOOMSBURY'',
          b_is_uk_publisher = True\<rparr>] []) \<and>
   m_engagement_score (select_row
     (\<lparr>b_book_key = Some ''0439708184'', b_isbn = Some ''0439708184'',
       b_title = Some ''Harry Potter'', b_authors = Some ''J.K. Rowling'',
       b_goodreads_rating = Some (447 / 100), b_goodreads_review_count = Some 99,
       b_page_count = None, b_publisher = Some ''BLOOMSBURY'',
       b_is_uk_publisher = True\<rparr>, None)) = Some (447 / 100 * 2)"
proof -
  let ?b = "\<lparr>b_book_key = Some ''0439708184'', b_isbn = Some ''0439708184'',
       b_title = Some ''Harry Potter'', b_authors = Some ''J.K. Rowling'',
       b_goodreads_rating = Some (447 / 100), b_goodreads_review_count = Some 99,
       b_page_count = None, b_publisher = Some ''BLOOMSBURY'',
       b_is_uk_publisher = True\<rparr>"
  have mem: "select_row (?b, None) \<in> set (sql_query [?b] [])"
    by (simp add: set_sql_query retained_def left_join_def where_clause_def sql_or_def
        sql_is_not_null_def col_def)
  have "log 10 (100::real) = 2"
    using log_pow_cancel [of 10 2] by simp
  with engagement_score_log10 [OF mem] mem show ?thesis
    by (simp add: select_row_fields)
qed

text \<open>
  Claim C2. A catalog record has a row in the joined output if and only if its
  flagged-publisher boolean is true or some rating aggregate matches its identifier (its
  aggregate side is not null); the rows of the query result are exactly the selected
  columns of the retained rows.
\<close>

theorem retention_filter_iff:
  assumes "b \<in> set bs"
  shows "((\<exists>co. (b, co) \<in> set (retained bs cs)) \<longleftrightarrow>
            b_is_uk_publisher b \<or>
            (\<exists>c \<in> set cs. sql_cmp (=) (b_isbn b) (c_isbn c) = Some True)) \<and>
         set (sql_query bs cs) = select_row ` set (retained bs cs)"
proof -
  have "(\<exists>co. (b, co) \<in> set (retained bs cs)) \<longleftrightarrow>
          b_is_uk_publisher b \<or> (\<exists>c \<in> set cs. sql_cmp (=) (b_isbn b) (c_isbn c) = Some True)"
  proof
    assume "\<exists>co. (b, co) \<in> set (retained bs cs)"
    then obtain co where co: "(b, co) \<in> set (left_join bs cs)" "where_clause (b, co)"
      by (auto simp: retained_def)
    show "b_is_uk_publisher b \<or> (\<exists>c \<in> set cs. sql_cmp (=) (b_isbn b) (c_isbn c) = Some True)"
    proof (cases co)
      case None
      with co(2) show ?thesis by (simp add: where_clause_iff)
    next
      case (Some c)
      with co(1) have "c \<in> set cs \<and> sql_cmp (=) (b_isbn b) (c_isbn c) = Some True"
        by (simp add: left_join_mem)
      then show ?thesis by blast
    qed
  next
    assume r: "b_is_uk_publisher b \<or>
               (\<exists>c \<in> set cs. sql_cmp (=) (b_isbn b) (c_isbn c) = Some True)"
    show "\<exists>co. (b, co) \<in> set (retained bs cs)"
    proof (cases "\<exists>c \<in> set cs. sql_cmp (=) (b_isbn b) (c_isbn c) = Some True")
      case True
      then obtain c where c: "c \<in> set cs" "sql_cmp (=) (b_isbn b) (c_isbn c) = Some True"
        by blast
      then have "c_isbn c \<noteq> None" by (auto simp: sql_cmp_def split: option.splits)
      with c assms have "(b, Some c) \<in> set (retained bs cs)"
        by (simp add: retained_def left_join_mem where_clause_iff)
      then show ?thesis by blast
    next
      case False
      with r have "b_is_uk_publisher b" by blast
      with False assms have "(b, None) \<in> set (retained bs cs)"
        by (simp add: retained_def left_join_mem where_clause_iff)
      then show ?thesis by blast
    qed
  qed
  then show ?thesis by (simp add: set_sql_query)
qed

theorem retention_filter_iff_witness:
  "(\<exists>co. (\<lparr>b_book_key = Some ''0439708184'', b_isbn = Some ''0439708184'',
            b_title = Some ''Harry Potter'', b_authors = Some ''J.K. Rowling'',
            b_goodreads_rating = Some (447 / 100), b_goodreads_review_count = Some 4780000,
            b_page_count = None, b_publisher = Some ''Scholastic'',
            b_is_uk_publisher = False\<rparr>, co)
      \<in> set (retained
          [\<lparr>b_book_key = Some ''0439708184'', b_isbn = Some ''0439708184'',
            b_title = Some ''Harry Potter'', b_authors = Some ''J.K. Rowling'',
            b_goodreads_rating = Some (447 / 100), b_goodreads_review_count = Some 4780000,
            b_page_count = None, b_publisher = Some ''Scholastic'',
            b_is_uk_publisher = False\<rparr>]
          [\<lparr>c_isbn = Some ''0439708184'', c_bc_rating_avg = Some 9,
            c_bc_rating_count = Some 12, c_bc_rating_stddev = Some (1 / 2),
            c_bc_rating_median = Some 9, c_bc_rating_normalized = Some (9 / 2)\<rparr>])) \<and>
   \<not> (\<exists>co. (\<lparr>b_book_key = Some ''0439708184'', b_isbn = Some ''0439708184'',
            b_title = Some ''Harry Potter'', b_authors = Some ''J.K. Rowling'',
            b_goodreads_rating = Some (447 / 100), b_goodreads_review_count = Some 4780000,
            b_page_count = None, b_publisher = Some ''Scholastic'',
            b_is_uk_publisher = False\<rparr>, co)
      \<in> set (retained
          [\<lparr>b_book_key = Some ''0439708184'', b_isbn = Some ''0439708184'',
            b_title = Some ''Harry Potter'', b_authors = Some ''J.K. Rowling'',
            b_goodreads_rating = Some (447 / 100), b_goodreads_review_count = Some 4780000,
            b_page_count = None, b_publisher = Some ''Scholastic'',
            b_is_uk_publisher = False\<rparr>] []))"
proof -
  let ?b = "\<lparr>b_book_key = Some ''0439708184'', b_isbn = Some ''0439708184'',
            b_title = Some ''Harry Potter'', b_authors = Some ''J.K. Rowling'',
            b_goodreads_rating = Some (447 / 100), b_goodreads_review_count = Some 4780000,
            b_page_count = None, b_publisher = Some ''Scholastic'',
            b_is_uk_publisher = False\<rparr>"
  let ?c = "\<lparr>c_isbn = Some ''0439708184'', c_bc_rating_avg = Some 9,
            c_bc_rating_count = Some 12, c_bc_rating_stddev = Some (1 / 2),
            c_bc_rating_median = Some 9, c_bc_rating_normalized = Some (9 / 2)\<rparr>"
  have mem: "?b \<in> set [?b]" by simp
  from retention_filter_iff [OF mem, of "[?c]"] retention_filter_iff [OF mem, of "[]"]
  show ?thesis by (simp add: sql_cmp_def)
qed

text \<open>
  Claim C3. For every joined row, the category follows the fixed priority chain on the
  rescaled aggregate mean and the catalog review count (Hidden Gem, Popular Favorite,
  Underperformer, Average), a comparison with a null value failing; and a row whose
  aggregate side is absent has the category Average.
\<close>

theorem book_category_priority_chain:
  assumes "row \<in> set (sql_query bs cs)"
  shows "m_book_category row =
     (case m_bc_rating row of
        None \<Rightarrow> ''Average''
      | Some m \<Rightarrow>
          (case m_goodreads_review_count row of
             None \<Rightarrow> if m < 3 then ''Underperformer'' else ''Average''
           | Some n \<Rightarrow>
               if m \<ge> 4 \<and> n < 500 then ''Hidden Gem''
               else if m \<ge> 4 \<and> n \<ge> 500 then ''Popular Favorite''
               else if m < 3 then ''Underperformer''
               else ''Average'')) \<and>
     m_book_category (select_row (b, None)) = ''Average''"
proof -
  from assms obtain p where "row = select_row p" by (auto simp: set_sql_query)
  then have "m_book_category row = book_category (m_bc_rating row) (m_goodreads_review_count row)"
    by (simp add: select_row_fields)
  moreover have "m_book_category (select_row (b, None)) = ''Average''"
    by (simp add: select_row_fields col_def book_category_cases)
  ultimately show ?thesis by (simp add: book_category_cases)
qed

theorem book_category_priority_chain_witness:
  "select_row
     (\<lparr>b_book_key = Some ''0439708184'', b_isbn = Some ''0439708184'',
       b_title = Some ''Harry Potter'', b_authors = Some ''J.K. Rowling'',
       b_goodreads_rating = Some (447 / 100), b_goodreads_review_count = Some 4780000,
       b_page_count = None, b_publisher = Some ''Scholastic'',
       b_is_uk_publisher = False\<rparr>,
      Some \<lparr>c_isbn = Some ''0439708184'', c_bc_rating_avg = Some 9,
            c_bc_rating_count = Some 12, c_bc_rating_stddev = Some (1 / 2),
            c_bc_rating_median = Some 9, c_bc_rating_normalized = Some (9 / 2)\<rparr>)
     \<in> set (sql_query
          [\<lparr>b_book_key = Some ''0439708184'', b_isbn = Some ''0439708184'',
            b_title = Some ''Harry Potter'', b_authors = Some ''J.K. Rowling'',
            b_goodreads_rating = Some (447 / 100), b_goodreads_review_count = Some 4780000,
            b_page_count = None, b_publisher = Some ''Scholastic'',
            b_is_uk_publisher = False\<rparr>]
          [\<lparr>c_isbn = Some ''0439708184'', c_bc_rating_avg = Some 9,
            c_bc_rating_count = Some 12, c_bc_rating_stddev = Some (1 / 2),
            c_bc_rating_median = Some 9, c_bc_rating_normalized = Some (9 / 2)\<rparr>]) \<and>
   m_book_category (select_row
     (\<lparr>b_book_key = Some ''0439708184'', b_isbn = Some ''0439708184'',
       b_title = Some ''Harry Potter'', b_authors = Some ''J.K. Rowling'',
       b_goodreads_rating = Some (447 / 100), b_goodreads_review_count = Some 4780000,
       b_page_count = None, b_publisher = Some ''Scholastic'',
       b_is_uk_publisher = False\<rparr>,
      Some \<lparr>c_isbn = Some ''0439708184'', c_bc_rating_avg = Some 9,
            c_bc_rating_count = Some 12, c_bc_rating_stddev = Some (1 / 2),
            c_bc_rating_median = Some 9, c_bc_rating_normalized = Some (9 / 2)\<rparr>))
     = ''Popular Favorite''"
proof -
  let ?b = "\<lparr>b_book_key = Some ''0439708184'', b_isbn = Some ''0439708184'',
            b_title = Some ''Harry Potter'', b_authors = Some ''J.K. Rowling'',
            b_goodreads_rating = Some (447 / 100), b_goodreads_review_count = Some 4780000,
            b_page_count = None, b_publisher = Some ''Scholastic'',
            b_is_uk_publisher = False\<rparr>"
  let ?c = "\<lparr>c_isbn = Some ''0439708184'', c_bc_rating_avg = Some 9,
            c_bc_rating_count = Some 12, c_bc_rating_stddev = Some (1 / 2),
            c_bc_rating_median = Some 9, c_bc_rating_normalized = Some (9 / 2)\<rparr>"
  have mem: "select_row (?b, Some ?c) \<in> set (sql_query [?b] [?c])"
    by (simp add: set_sql_query retained_def left_join_def where_clause_def sql_or_def
        sql_is_not_null_def col_def sql_cmp_def)
  from book_category_priority_chain [OF mem] mem show ?thesis
    by (simp add: select_row_fields col_def)
qed

section \<open>The rating step of the catalog cleaner\<close>

lemma rating_in_0_5_coerce:
  "rating_in_0_5 (average_rating (coerce_average_rating parse r)) \<longleftrightarrow>
     (\<exists>v. to_numeric parse (average_rating r) = Some v \<and> 0 \<le> v \<and> v \<le> 5)"
  by (auto simp: rating_in_0_5_def coerce_average_rating_def split: option.splits)

lemma parse_abc: "parse_decimal ''abc'' = None"
  by (simp add: parse_decimal_def digit_of_def)

lemma parse_447: "parse_decimal ''4.47'' = Some (447 / 100)"
  by (simp add: parse_decimal_def digit_of_def)

text \<open>
  Claim C4, as stated, fails: in a frame with the rating column, two records with an
  identity key, one whose rating text does not parse and one whose rating is missing,
  get a null rating and are both removed by the range filter.
\<close>

theorem rating_step_counterexample:
  "map book_key (drop_unkeyed (goodreads_keyed
     [\<lparr>isbn = Some ''0439708184'', isbn13 = None, title = Some ''Harry Potter'',
       authors = Some ''J.K. Rowling'', average_rating = Text ''abc'', isbn_clean = None,
       isbn13_clean = None, ISBN = None, book_key = None\<rparr>,
      \<lparr>isbn = Some ''043970818X'', isbn13 = None, title = Some ''Harry Potter'',
       authors = Some ''J.K. Rowling'', average_rating = NA, isbn_clean = None,
       isbn13_clean = None, ISBN = None, book_key = None\<rparr>]))
     = [Some ''0439708184'', Some ''043970818X''] \<and>
   to_numeric parse_decimal (Text ''abc'') = None \<and>
   goodreads_clean True parse_decimal
     [\<lparr>isbn = Some ''0439708184'', isbn13 = None, title = Some ''Harry Potter'',
       authors = Some ''J.K. Rowling'', average_rating = Text ''abc'', isbn_clean = None,
       isbn13_clean = None, ISBN = None, book_key = None\<rparr>,
      \<lparr>isbn = Some ''043970818X'', isbn13 = None, title = Some ''Harry Potter'',
       authors = Some ''J.K. Rowling'', average_rating = NA, isbn_clean = None,
       isbn13_clean = None, ISBN = None, book_key = None\<rparr>] = []"
proof -
  let ?rows = "[\<lparr>isbn = Some ''0439708184'', isbn13 = None, title = Some ''Harry Potter'',
       authors = Some ''J.K. Rowling'', average_rating = Text ''abc'', isbn_clean = None,
       isbn13_clean = None, ISBN = None, book_key = None\<rparr>,
      \<lparr>isbn = Some ''043970818X'', isbn13 = None, title = Some ''Harry Potter'',
       authors = Some ''J.K. Rowling'', average_rating = NA, isbn_clean = None,
       isbn13_clean = None, ISBN = None, book_key = None\<rparr>]"
  have keys: "map book_key (drop_unkeyed (goodreads_keyed ?rows))
     = [Some ''0439708184'', Some ''043970818X'']"
    by code_simp
  have ratings: "map average_rating (drop_unkeyed (goodreads_keyed ?rows)) = [Text ''abc'', NA]"
    by code_simp
  have "\<forall>r \<in> set (drop_unkeyed (goodreads_keyed ?rows)).
          \<not> rating_in_0_5 (average_rating (coerce_average_rating parse_decimal r))"
  proof
    fix r assume "r \<in> set (drop_unkeyed (goodreads_keyed ?rows))"
    then have "average_rating r \<in> set (map average_rating (drop_unkeyed (goodreads_keyed ?rows)))"
      by (simp only: set_map image_eqI)
    with ratings have "average_rating r = Text ''abc'' \<or> average_rating r = NA" by simp
    then show "\<not> rating_in_0_5 (average_rating (coerce_average_rating parse_decimal r))"
      by (auto simp: rating_in_0_5_coerce to_numeric_def parse_abc)
  qed
  then have "goodreads_clean True parse_decimal ?rows = []"
    by (simp add: goodreads_clean_def clean_average_rating_def filter_empty_conv)
  with keys show ?thesis by (simp add: to_numeric_def parse_abc)
qed

text \<open>
  Claim C4, amended. In a frame that has the rating column, a record with an identity
  key stays after the rating step if and only if its rating parses to a number in
  [0,5]: a rating that fails to parse (or is missing) becomes null, and the record is
  then removed like one with an out-of-range rating; after the step every record's
  rating is a number in [0,5], never null. In a frame without the rating column the
  step is skipped: every record is kept, and its exported rating is null.
\<close>

theorem rating_step_keeps_iff:
  assumes "r \<in> set rows"
  shows "(coerce_average_rating parse r \<in> set (clean_average_rating True parse rows) \<longleftrightarrow>
            (\<exists>v. to_numeric parse (average_rating r) = Some v \<and> 0 \<le> v \<and> v \<le> 5)) \<and>
         (\<forall>r' \<in> set (clean_average_rating True parse rows).
            \<exists>v. average_rating r' = Num v \<and> 0 \<le> v \<and> v \<le> 5 \<and>
                goodreads_final_rating True r' = Some v) \<and>
         clean_average_rating False parse rows = rows \<and>
         r \<in> set (clean_average_rating False parse rows) \<and>
         goodreads_final_rating False r = None"
proof -
  have "coerce_average_rating parse r \<in> set (clean_average_rating True parse rows) \<longleftrightarrow>
          rating_in_0_5 (average_rating (coerce_average_rating parse r))"
    using assms by (auto simp: clean_average_rating_def)
  moreover have "\<forall>r' \<in> set (clean_average_rating True parse rows).
            \<exists>v. average_rating r' = Num v \<and> 0 \<le> v \<and> v \<le> 5 \<and>
                goodreads_final_rating True r' = Some v"
    by (auto simp: clean_average_rating_def rating_in_0_5_def goodreads_final_rating_def
        split: cell.splits)
  moreover have "clean_average_rating False parse rows = rows"
    by (simp add: clean_average_rating_def)
  moreover have "goodreads_final_rating False r = None"
    by (simp add: goodreads_final_rating_def)
  ultimately show ?thesis using assms by (simp add: rating_in_0_5_coerce)
qed

theorem rating_step_keeps_iff_witness:
  "coerce_average_rating parse_decimal
     \<lparr>isbn = Some ''0439708184'', isbn13 = None, title = Some ''Harry Potter'',
      authors = Some ''J.K. Rowling'', average_rating = Text ''4.47'',
      isbn_clean = Some ''0439708184'', isbn13_clean = None, ISBN = Some ''0439708184'',
      book_key = Some ''0439708184''\<rparr>
   \<in> set (clean_average_rating True parse_decimal
     [\<lparr>isbn = Some ''0439708184'', isbn13 = None, title = Some ''Harry Potter'',
       authors = Some ''J.K. Rowling'', average_rating = Text ''4.47'',
       isbn_clean = Some ''0439708184'', isbn13_clean = None, ISBN = Some ''0439708184'',
       book_key = Some ''0439708184''\<rparr>]) \<and>
   to_numeric parse_decimal (Text ''4.47'') = Some (447 / 100) \<and>
   clean_average_rating False parse_decimal
     [\<lparr>isbn = Some ''0439708184'', isbn13 = None, title = Some ''Harry Potter'',
       authors = Some ''J.K. Rowling'', average_rating = Text ''4.47'',
       isbn_clean = Some ''0439708184'', isbn13_clean = None, ISBN = Some ''0439708184'',
       book_key = Some ''0439708184''\<rparr>] =
     [\<lparr>isbn = Some ''0439708184'', isbn13 = None, title = Some ''Harry Potter'',
       authors = Some ''J.K. Rowling'', average_rating = Text ''4.47'',
       isbn_clean = Some ''0439708184'', isbn13_clean = None, ISBN = Some ''0439708184'',
       book_key = Some ''0439708184''\<rparr>] \<and>
   goodreads_final_rating False
     \<lparr>isbn = Some ''0439708184'', isbn13 = None, title = Some ''Harry Potter'',
      authors = Some ''J.K. Rowling'', average_rating = Text ''4.47'',
      isbn_clean = Some ''0439708184'', isbn13_clean = None, ISBN = Some ''0439708184'',
      book_key = Some ''0439708184''\<rparr> = None"
proof -
  let ?r = "\<lparr>isbn = Some ''0439708184'', isbn13 = None, title = Some ''Harry Potter'',
      authors = Some ''J.K. Rowling'', average_rating = Text ''4.47'',
      isbn_clean = Some ''0439708184'', isbn13_clean = None, ISBN = Some ''0439708184'',
      book_key = Some ''0439708184''\<rparr>"
  have mem: "?r \<in> set [?r]" by simp
  note step = rating_step_keeps_iff [OF mem, of parse_decimal]
  have num: "to_numeric parse_decimal (Text ''4.47'') = Some (447 / 100)"
    by (simp add: to_numeric_def parse_447)
  then have "\<exists>v. to_numeric parse_decimal (average_rating ?r) = Some v \<and> 0 \<le> v \<and> v \<le> 5"
    by (intro exI [of _ "447 / 100"]) simp
  with step
  have kept: "coerce_average_rating parse_decimal ?r
                \<in> set (clean_average_rating True parse_decimal [?r])"
    by blast
  from step have skipped: "clean_average_rating False parse_decimal [?r] = [?r]"
    and null: "goodreads_final_rating False ?r = None"
    by blast+
  from kept num skipped null show ?thesis by simp
qed

section \<open>Cohort aggregation and absent actors\<close>

lemma no_user_filter_empty:
  "r_user_id r \<notin> u_user_id ` set us \<Longrightarrow> filter (\<lambda>u. u_user_id u = r_user_id r) us = []"
  by (force simp: filter_empty_conv)

lemma ratings_with_users_Cons:
  "ratings_with_users (r # rs) us = ratings_with_users [r] us @ ratings_with_users rs us"
  by (simp add: ratings_with_users_def)

lemma filter_ratings_with_users_None:
  "filter (\<lambda>row. snd row \<noteq> None) (ratings_with_users rs us) =
   filter (\<lambda>row. snd row \<noteq> None)
     (ratings_with_users (filter (\<lambda>r. r_user_id r \<in> u_user_id ` set us) rs) us)"
proof (induction rs)
  case Nil
  then show ?case by (simp add: ratings_with_users_def)
next
  case (Cons r rs)
  show ?case
  proof (cases "r_user_id r \<in> u_user_id ` set us")
    case True
    then show ?thesis using Cons ratings_with_users_Cons [of r rs us]
      ratings_with_users_Cons [of r "filter (\<lambda>r. r_user_id r \<in> u_user_id ` set us) rs" us] by simp
  next
    case False
    then have "ratings_with_users [r] us = [(r, None)]"
      by (simp add: ratings_with_users_def no_user_filter_empty)
    with False Cons ratings_with_users_Cons [of r rs us] show ?thesis by simp
  qed
qed

lemma dropna_keys_filter:
  "dropna_keys rows = dropna_keys (filter (\<lambda>row. snd row \<noteq> None) rows)"
  by (induction rows) (auto simp: dropna_keys_def group_key_def age_group_of_def)

lemma dropna_absent:
  "dropna_keys (ratings_with_users rs us) =
   dropna_keys (ratings_with_users (filter (\<lambda>r. r_user_id r \<in> u_user_id ` set us) rs) us)"
proof -
  have "dropna_keys (ratings_with_users rs us) =
        dropna_keys (filter (\<lambda>row. snd row \<noteq> None) (ratings_with_users rs us))"
    by (rule dropna_keys_filter)
  also have "\<dots> = dropna_keys (filter (\<lambda>row. snd row \<noteq> None)
        (ratings_with_users (filter (\<lambda>r. r_user_id r \<in> u_user_id ` set us) rs) us))"
    by (simp only: filter_ratings_with_users_None [of rs us])
  also have "\<dots> = dropna_keys (ratings_with_users (filter (\<lambda>r. r_user_id r \<in> u_user_id ` set us) rs) us)"
    by (rule dropna_keys_filter [symmetric])
  finally show ?thesis .
qed

lemma absent_actor_None:
  assumes "(r, uo) \<in> set (ratings_with_users rs us)" "r_user_id r \<notin> u_user_id ` set us"
  shows "uo = None"
proof -
  from assms(1) obtain r' where "r' \<in> set rs" and
    m: "(r, uo) \<in> set (let ms = filter (\<lambda>u. u_user_id u = r_user_id r') us
                       in if ms = [] then [(r', None)] else map (\<lambda>u. (r', Some u)) ms)"
    by (auto simp: ratings_with_users_def)
  show ?thesis
  proof (cases "filter (\<lambda>u. u_user_id u = r_user_id r') us = []")
    case True
    with m show ?thesis by simp
  next
    case False
    with m have "r = r'" by (auto simp: Let_def)
    with False assms(2) show ?thesis by (simp add: no_user_filter_empty)
  qed
qed

lemma absent_actor_row:
  assumes "r \<in> set rs" "r_user_id r \<notin> u_user_id ` set us"
  shows "(r, None) \<in> set (ratings_with_users rs us)"
proof -
  from assms(1) have "set (ratings_with_users [r] us) \<subseteq> set (ratings_with_users rs us)"
    by (auto simp: ratings_with_users_def)
  moreover have "ratings_with_users [r] us = [(r, None)]"
    using assms(2) by (simp add: ratings_with_users_def no_user_filter_empty)
  ultimately show ?thesis by simp
qed

lemma groupby_rows:
  assumes "d \<in> set (groupby_isbn_age rows)"
  shows "d_age_group d \<noteq> None \<and> d_isbn d \<noteq> None"
proof -
  from assms obtain k where k: "k \<in> set (map group_key (dropna_keys rows))"
    and d: "d = aggregate_group (dropna_keys rows) k"
    by (auto simp: groupby_isbn_age_def Let_def)
  from k have "fst k \<noteq> None \<and> snd k \<noteq> None" by (auto simp: dropna_keys_def)
  with d show ?thesis by (simp add: aggregate_group_def Let_def)
qed

lemma insights_absent:
  "demographic_insights rs us =
     demographic_insights (filter (\<lambda>r. r_user_id r \<in> u_user_id ` set us) rs) us"
  by (simp only: demographic_insights_def groupby_isbn_age_def dropna_absent [of rs us])

lemma insights_example:
  "demographic_insights
     (replicate 5 \<lparr>r_user_id = 7, r_isbn = Some ''0439708184'', r_book_rating = 9,
                   r_isbn_clean = Some ''0439708184''\<rparr>)
     [\<lparr>u_user_id = 7, u_age_group = ''26-35'', u_country = ''UK'', u_is_uk = True\<rparr>] =
   [\<lparr>d_isbn = Some ''0439708184'', d_age_group = Some ''26-35'', d_rating_avg = 9,
     d_rating_count = 5\<rparr>]"
  by (simp add: demographic_insights_def groupby_isbn_age_def dropna_keys_def
      ratings_with_users_def group_key_def age_group_of_def aggregate_group_def numeral_eq_Suc)

text \<open>
  Claim C6, as stated, fails: five rating events of one book by an actor who is not in
  the actor table all get a null cohort label from the left join, and the grouping
  leaves them out; no group with a null label and count 5 is produced.
\<close>

theorem null_cohort_group_counterexample:
  "map age_group_of (ratings_with_users
     (replicate 5 \<lparr>r_user_id = 7, r_isbn = Some ''0439708184'', r_book_rating = 9,
                   r_isbn_clean = Some ''0439708184''\<rparr>) []) = replicate 5 None \<and>
   demographic_insights
     (replicate 5 \<lparr>r_user_id = 7, r_isbn = Some ''0439708184'', r_book_rating = 9,
                   r_isbn_clean = Some ''0439708184''\<rparr>) [] = []"
  by (simp add: demographic_insights_def groupby_isbn_age_def dropna_keys_def
      ratings_with_users_def group_key_def age_group_of_def numeral_eq_Suc)

text \<open>
  Claim C6, amended. A rating event whose actor is absent from the actor table receives
  a null cohort label via the left join; the grouping by (identifier, cohort label)
  leaves rows with a null label out, so such events contribute to no cohort aggregate:
  the cohort aggregates are those of the events whose actor is present, every group has
  a cohort label, and every group has at least 5 events.
\<close>

theorem cohort_aggregation_absent_actors:
  assumes "r \<in> set rs" and "r_user_id r \<notin> u_user_id ` set us"
  shows "(r, None) \<in> set (ratings_with_users rs us) \<and>
         (\<forall>uo. (r, uo) \<in> set (ratings_with_users rs us) \<longrightarrow> uo = None) \<and>
         demographic_insights rs us =
           demographic_insights (filter (\<lambda>r. r_user_id r \<in> u_user_id ` set us) rs) us \<and>
         (\<forall>d \<in> set (demographic_insights rs us). d_age_group d \<noteq> None \<and> d_rating_count d \<ge> 5)"
proof -
  have a: "(r, None) \<in> set (ratings_with_users rs us)"
    using assms by (rule absent_actor_row)
  have b: "\<forall>uo. (r, uo) \<in> set (ratings_with_users rs us) \<longrightarrow> uo = None"
    using assms(2) absent_actor_None by blast
  have c: "demographic_insights rs us =
           demographic_insights (filter (\<lambda>r. r_user_id r \<in> u_user_id ` set us) rs) us"
    by (rule insights_absent)
  have d: "\<forall>d \<in> set (demographic_insights rs us). d_age_group d \<noteq> None \<and> d_rating_count d \<ge> 5"
    using groupby_rows by (auto simp: demographic_insights_def)
  from a b c d show ?thesis by blast
qed

theorem cohort_aggregation_absent_actors_witness:
  "(\<lparr>r_user_id = 8, r_isbn = Some ''0439708184'', r_book_rating = 2,
     r_isbn_clean = Some ''0439708184''\<rparr>, None)
     \<in> set (ratings_with_users
         (replicate 5 \<lparr>r_user_id = 7, r_isbn = Some ''0439708184'', r_book_rating = 9,
                       r_isbn_clean = Some ''0439708184''\<rparr> @
          replicate 5 \<lparr>r_user_id = 8, r_isbn = Some ''0439708184'', r_book_rating = 2,
                       r_isbn_clean = Some ''0439708184''\<rparr>)
         [\<lparr>u_user_id = 7, u_age_group = ''26-35'', u_country = ''UK'', u_is_uk = True\<rparr>]) \<and>
   demographic_insights
     (replicate 5 \<lparr>r_user_id = 7, r_isbn = Some ''0439708184'', r_book_rating = 9,
                   r_isbn_clean = Some ''0439708184''\<rparr> @
      replicate 5 \<lparr>r_user_id = 8, r_isbn = Some ''0439708184'', r_book_rating = 2,
                   r_isbn_clean = Some ''0439708184''\<rparr>)
     [\<lparr>u_user_id = 7, u_age_group = ''26-35'', u_country = ''UK'', u_is_uk = True\<rparr>] =
   [\<lparr>d_isbn = Some ''0439708184'', d_age_group = Some ''26-35'', d_rating_avg = 9,
     d_rating_count = 5\<rparr>]"
proof -
  let ?e7 = "\<lparr>r_user_id = 7, r_isbn = Some ''0439708184'', r_book_rating = 9,
              r_isbn_clean = Some ''0439708184''\<rparr>"
  let ?e8 = "\<lparr>r_user_id = 8, r_isbn = Some ''0439708184'', r_book_rating = 2,
              r_isbn_clean = Some ''0439708184''\<rparr>"
  let ?us = "[\<lparr>u_user_id = 7, u_age_group = ''26-35'', u_country = ''UK'', u_is_uk = True\<rparr>]"
  have mem: "?e8 \<in> set (replicate 5 ?e7 @ replicate 5 ?e8)" by simp
  have absent: "r_user_id ?e8 \<notin> u_user_id ` set ?us" by simp
  have present: "filter (\<lambda>r. r_user_id r \<in> u_user_id ` set ?us)
                   (replicate 5 ?e7 @ replicate 5 ?e8) = replicate 5 ?e7"
    by (simp add: numeral_eq_Suc)
  from cohort_aggregation_absent_actors [OF mem absent] present insights_example
  show ?thesis by simp
qed

section \<open>Missing inputs of the join stage\<close>

lemma run_script_Some:
  "run_script (Some run) fs = (fst (run fs) = Exit0, snd (run fs))"
  by (simp add: run_script_def split: prod.splits exit_status.splits)

text \<open>
  Claim C7, as stated, fails: with the cleaned catalog present and the rating aggregate
  file missing, the join stage exits with status 0 and writes a joined output, and the
  runner goes on to the next stage.
\<close>

theorem missing_aggregate_counterexample:
  "fst (create_database
     \<lparr>goodreads_cleaned_csv =
        Some [\<lparr>b_book_key = Some ''0747532699'', b_isbn = Some ''0747532699'',
               b_title = Some ''Harry Potter'', b_authors = Some ''J.K. Rowling'',
               b_goodreads_rating = Some (447 / 100), b_goodreads_review_count = Some 99,
               b_page_count = None, b_publisher = Some ''BLOOMSBURY'',
               b_is_uk_publisher = True\<rparr>],
      bc_ratings_aggregated_csv = None, db_community_ratings = [],
      master_dataset_csv = None\<rparr>) = Exit0 \<and>
   map_option (map m_title) (master_dataset_csv (snd (create_database
     \<lparr>goodreads_cleaned_csv =
        Some [\<lparr>b_book_key = Some ''0747532699'', b_isbn = Some ''0747532699'',
               b_title = Some ''Harry Potter'', b_authors = Some ''J.K. Rowling'',
               b_goodreads_rating = Some (447 / 100), b_goodreads_review_count = Some 99,
               b_page_count = None, b_publisher = Some ''BLOOMSBURY'',
               b_is_uk_publisher = True\<rparr>],
      bc_ratings_aggregated_csv = None, db_community_ratings = [],
      master_dataset_csv = None\<rparr>))) = Some [Some ''Harry Potter''] \<and>
   fst (run_scripts [Some create_database, Some reads_master_dataset]
     \<lparr>goodreads_cleaned_csv =
        Some [\<lparr>b_book_key = Some ''0747532699'', b_isbn = Some ''0747532699'',
               b_title = Some ''Harry Potter'', b_authors = Some ''J.K. Rowling'',
               b_goodreads_rating = Some (447 / 100), b_goodreads_review_count = Some 99,
               b_page_count = None, b_publisher = Some ''BLOOMSBURY'',
               b_is_uk_publisher = True\<rparr>],
      bc_ratings_aggregated_csv = None, db_community_ratings = [],
      master_dataset_csv = None\<rparr>) = 2"
  by (simp add: create_database_def run_script_Some reads_master_dataset_def
      sql_query_def order_by_engagement_desc_def retained_def left_join_def where_clause_def
      sql_or_def sql_is_not_null_def col_def select_row_def)

text \<open>
  Claim C7, amended. When the cleaned catalog is missing, the join stage exits with
  status 1 and changes nothing; the runner stops at the first stage that fails, so no
  later stage runs. When only the rating aggregate file is missing, the join stage goes
  on with the table \<open>community_ratings\<close> as the database has it (empty in a new database),
  exits with status 0 and writes the joined output, and the runner continues with the
  later stages.
\<close>

theorem missing_source_behaviour:
  "(goodreads_cleaned_csv fs = None \<longrightarrow> create_database fs = (Exit1, fs)) \<and>
   (goodreads_cleaned_csv fs = Some goodreads \<and> bc_ratings_aggregated_csv fs = None \<longrightarrow>
      create_database fs =
        (Exit0, fs\<lparr>db_community_ratings := db_community_ratings fs,
                    master_dataset_csv := Some (sql_query goodreads (db_community_ratings fs))\<rparr>)) \<and>
   (run_script script fs = (False, fs') \<longrightarrow> run_scripts (script # rest) fs = (0, fs')) \<and>
   (run_script script fs = (True, fs') \<longrightarrow>
      run_scripts (script # rest) fs =
        (Suc (fst (run_scripts rest fs')), snd (run_scripts rest fs')))"
  by (simp add: create_database_def Let_def split: prod.splits)

theorem missing_source_behaviour_witness:
  "create_database
     \<lparr>goodreads_cleaned_csv = None, bc_ratings_aggregated_csv = None,
      db_community_ratings = [], master_dataset_csv = None\<rparr> =
     (Exit1, \<lparr>goodreads_cleaned_csv = None, bc_ratings_aggregated_csv = None,
              db_community_ratings = [], master_dataset_csv = None\<rparr>) \<and>
   run_scripts [Some create_database, Some reads_master_dataset]
     \<lparr>goodreads_cleaned_csv = None, bc_ratings_aggregated_csv = None,
      db_community_ratings = [], master_dataset_csv = None\<rparr> =
     (0, \<lparr>goodreads_cleaned_csv = None, bc_ratings_aggregated_csv = None,
          db_community_ratings = [], master_dataset_csv = None\<rparr>) \<and>
   create_database
     \<lparr>goodreads_cleaned_csv = Some [], bc_ratings_aggregated_csv = None,
      db_community_ratings = [], master_dataset_csv = None\<rparr> =
     (Exit0, \<lparr>goodreads_cleaned_csv = Some [], bc_ratings_aggregated_csv = None,
              db_community_ratings = [], master_dataset_csv = Some []\<rparr>)"
proof -
  let ?fs = "\<lparr>goodreads_cleaned_csv = None, bc_ratings_aggregated_csv = None,
      db_community_ratings = [], master_dataset_csv = None\<rparr>"
  let ?fs2 = "\<lparr>goodreads_cleaned_csv = Some [], bc_ratings_aggregated_csv = None,
      db_community_ratings = [], master_dataset_csv = None\<rparr>"
  have halt: "create_database ?fs = (Exit1, ?fs)"
    using missing_source_behaviour [of ?fs] by simp
  then have "run_script (Some create_database) ?fs = (False, ?fs)"
    by (simp add: run_script_def)
  then have stop: "run_scripts [Some create_database, Some reads_master_dataset] ?fs = (0, ?fs)"
    using missing_source_behaviour [of ?fs "[]" "Some create_database" ?fs "[Some reads_master_dataset]"]
    by simp
  have "sql_query [] [] = []"
    by (simp add: sql_query_def order_by_engagement_desc_def retained_def left_join_def)
  then have go: "create_database ?fs2 = (Exit0, ?fs2\<lparr>master_dataset_csv := Some []\<rparr>)"
    using missing_source_behaviour [of ?fs2 "[]"] by simp
  from halt stop go show ?thesis by simp
qed

end
